theory Spec2Isabelle
  imports Complex_Main
begin

section \<open>JavaScript values\<close>

text \<open>
  The values that travel through the harness: configuration entries, callback payloads
  parsed from the body of an HTTP request, identifiers held by a test. A number is the
  exact rational value of the double it denotes (a parsed payload holds no NaN and no
  infinity, and \<open>-0 === 0\<close>). An object is the list of its own properties. A function
  of the language's library, which is an object too, is known by its name.
\<close>

datatype jsval =
    Undefined
  | Null
  | Bool bool
  | Num rat
  | Str string
  | Arr "jsval list"
  | Obj "(string \<times> jsval) list"
  | Fun string

text \<open>What a \<open>throw\<close> carries: \<open>new Error(message)\<close>, or the engine's \<open>TypeError\<close>
  for a property read on \<open>undefined\<close> or \<open>null\<close>.\<close>

datatype js_error = Error string | TypeError

text \<open>The test of \<open>if (v)\<close>, \<open>!v\<close> and \<open>v && w\<close>.\<close>

fun truthy :: "jsval \<Rightarrow> bool" where
  "truthy Undefined = False"
| "truthy Null = False"
| "truthy (Bool b) = b"
| "truthy (Num n) = (n \<noteq> 0)"
| "truthy (Str s) = (s \<noteq> [])"
| "truthy (Arr xs) = True"
| "truthy (Obj ps) = True"
| "truthy (Fun f) = True"

text \<open>
  \<open>a === b\<close>. Primitives are compared by type and value. An array, an object or a
  function is equal only to itself: the operands compared in this development are a field of a freshly
  parsed callback payload and a value the test holds, or a literal, so two of them are
  never the same object.
\<close>

fun strict_eq :: "jsval \<Rightarrow> jsval \<Rightarrow> bool" where
  "strict_eq Undefined Undefined = True"
| "strict_eq Null Null = True"
| "strict_eq (Bool a) (Bool b) = (a = b)"
| "strict_eq (Num a) (Num b) = (a = b)"
| "strict_eq (Str a) (Str b) = (a = b)"
| "strict_eq _ _ = False"

text \<open>Reading a property of \<open>undefined\<close> or \<open>null\<close> throws a \<open>TypeError\<close>.\<close>

fun nullish :: "jsval \<Rightarrow> bool" where
  "nullish Undefined = True"
| "nullish Null = True"
| "nullish _ = False"

definition own_property :: "(string \<times> jsval) list \<Rightarrow> string \<Rightarrow> jsval" where
  "own_property ps k = (case map_of ps k of None \<Rightarrow> Undefined | Some v \<Rightarrow> v)"

text \<open>
  \<open>v.k\<close> for a value that is neither \<open>undefined\<close> nor \<open>null\<close>, and for the field names the
  listeners read (\<open>type\<close>, \<open>reference_id\<close>, \<open>request_id\<close>, \<open>status\<close>, \<open>closed\<close>,
  \<open>service_list\<close>, \<open>signed_data_count\<close>): no built-in prototype defines one of them, so
  only an object's own properties are seen, and every other value gives \<open>undefined\<close>.
\<close>

fun get_field :: "jsval \<Rightarrow> string \<Rightarrow> jsval" where
  "get_field (Obj ps) k = own_property ps k"
| "get_field _ k = Undefined"

text \<open>\<open>v[0]\<close> for a value that is neither \<open>undefined\<close> nor \<open>null\<close>: the first element of an
  array, the first character of a string, the own property \<open>"0"\<close> of an object.\<close>

fun index0 :: "jsval \<Rightarrow> jsval" where
  "index0 (Arr []) = Undefined"
| "index0 (Arr (x # xs)) = x"
| "index0 (Str []) = Undefined"
| "index0 (Str (c # cs)) = Str [c]"
| "index0 (Obj ps) = own_property ps ''0''"
| "index0 _ = Undefined"

section \<open>src/api/helpers.js\<close>

subsection \<open>getApiAddressUrl\<close>

text \<open>
  \<open>nodeIdMappingAddress\<close> is imported from the configuration module. All the function
  does with it is test it for truthiness and read \<open>nodeIdMappingAddress[nodeId]\<close>, so the
  configured value is \<open>None\<close> when it is falsy (\<open>undefined\<close>, \<open>null\<close>) and otherwise
  \<open>Some m\<close>, with \<open>m nodeId\<close> the value the read yields (\<open>Undefined\<close> where there is no
  such property). A read on a truthy value does not throw.
\<close>

type_synonym node_id_mapping = "(jsval \<Rightarrow> jsval) option"

text \<open>The value tested by \<open>nodeIdMappingAddress && nodeIdMappingAddress[nodeId]\<close>: a falsy
  configuration value stands for itself (here \<open>Undefined\<close>, falsy as well), a truthy one
  gives the read.\<close>

definition mapped_address :: "node_id_mapping \<Rightarrow> jsval \<Rightarrow> jsval" where
  "mapped_address nodeIdMappingAddress nodeId =
    (case nodeIdMappingAddress of None \<Rightarrow> Undefined | Some m \<Rightarrow> m nodeId)"

definition getApiAddressUrl :: "node_id_mapping \<Rightarrow> jsval \<Rightarrow> js_error + jsval" where
  "getApiAddressUrl nodeIdMappingAddress nodeId =
    (if truthy (mapped_address nodeIdMappingAddress nodeId)
       then Inr (mapped_address nodeIdMappingAddress nodeId)
     else if strict_eq nodeId (Str ''rp1'') then Inr (Str ''http://localhost:8200'')
     else if strict_eq nodeId (Str ''rp2'') then Inr (Str ''http://localhost:8201'')
     else if strict_eq nodeId (Str ''idp1'') then Inr (Str ''http://localhost:8100'')
     else if strict_eq nodeId (Str ''idp2'') then Inr (Str ''http://localhost:8101'')
     else if strict_eq nodeId (Str ''idp3'') then Inr (Str ''http://localhost:8102'')
     else if strict_eq nodeId (Str ''as1'') then Inr (Str ''http://localhost:8300'')
     else if strict_eq nodeId (Str ''as2'') then Inr (Str ''http://localhost:8301'')
     else if strict_eq nodeId (Str ''ndid1'') then Inr (Str ''http://localhost:8080'')
     else if strict_eq nodeId (Str ''proxy1'') then Inr (Str ''http://localhost:8400'')
     else if strict_eq nodeId (Str ''proxy2'') then Inr (Str ''http://localhost:8401'')
     else Inl (Error ''Unsupported Node ID''))"

text \<open>
  A mapping that is configured is an ordinary object, and \<open>nodeIdMappingAddress[nodeId]\<close>
  is an ordinary property read: it finds the object's own property of that name, and
  failing that the property every ordinary object inherits from \<open>Object.prototype\<close>.
  These are the own properties of \<open>Object.prototype\<close>; its \<open>__proto__\<close> is an accessor, which
  yields \<open>null\<close> on \<open>Object.prototype\<close> itself and \<open>Object.prototype\<close> on an object that
  inherits it.
\<close>

definition Object_prototype :: jsval where
  "Object_prototype =
    Obj [(''constructor'', Fun ''Object''),
         (''__defineGetter__'', Fun ''__defineGetter__''),
         (''__defineSetter__'', Fun ''__defineSetter__''),
         (''hasOwnProperty'', Fun ''hasOwnProperty''),
         (''__lookupGetter__'', Fun ''__lookupGetter__''),
         (''__lookupSetter__'', Fun ''__lookupSetter__''),
         (''isPrototypeOf'', Fun ''isPrototypeOf''),
         (''propertyIsEnumerable'', Fun ''propertyIsEnumerable''),
         (''toString'', Fun ''toString''),
         (''valueOf'', Fun ''valueOf''),
         (''__proto__'', Null),
         (''toLocaleString'', Fun ''toLocaleString'')]"

definition inherited_property :: "string \<Rightarrow> jsval" where
  "inherited_property k =
    (if k = ''__proto__'' then Object_prototype else get_field Object_prototype k)"

text \<open>
  The read \<open>o[k]\<close> on the ordinary object \<open>o\<close> whose own properties are \<open>ps\<close>, for a string
  \<open>k\<close>, as a node id is. The engine turns a key of another type into a string first; that
  conversion is not modelled, and the read is used at string keys only.
\<close>

fun plain_object :: "(string \<times> jsval) list \<Rightarrow> jsval \<Rightarrow> jsval" where
  "plain_object ps (Str k) =
    (case map_of ps k of Some v \<Rightarrow> v | None \<Rightarrow> inherited_property k)"
| "plain_object ps _ = Undefined"

subsection \<open>httpGet and httpPost\<close>

text \<open>
  Both functions return what \<open>fetch\<close> (of node-fetch) returns; what they decide is the
  call they make. A call is the resource and the \<open>init\<close> object: its method, its headers
  in the order written, and its body (\<open>None\<close> when \<open>init\<close> has no body, or an \<open>undefined\<close>
  one). \<open>JSON.stringify\<close> is the language's own and is a parameter here: on a value of
  \<^typ>\<open>jsval\<close> it does not throw, and it yields a string, or \<open>undefined\<close> (\<open>None\<close>).
\<close>

record fetch_call =
  resource :: string
  init_method :: string
  init_headers :: "(string \<times> string) list"
  init_body :: "string option"

definition httpGet :: "string \<Rightarrow> fetch_call" where
  "httpGet url =
    \<lparr>resource = url, init_method = ''GET'',
     init_headers = [(''Accept'', ''application/json'')],
     init_body = None\<rparr>"

definition httpPost :: "(jsval \<Rightarrow> string option) \<Rightarrow> string \<Rightarrow> jsval \<Rightarrow> fetch_call" where
  "httpPost JSON_stringify url body =
    \<lparr>resource = url, init_method = ''POST'',
     init_headers = [(''Accept'', ''application/json''),
                     (''Content-Type'', ''application/json'')],
     init_body = JSON_stringify body\<rparr>"

section \<open>Callback listeners of the test files\<close>

text \<open>
  A test file creates one event promise per callback it waits for
  (\<open>createEventPromise()\<close>) and, in its \<open>before\<close> hook, subscribes a listener to the
  \<open>callback\<close> event of a node's emitter. The listener receives the parsed payload and
  calls \<open>resolve\<close> on the promise the payload is for.
\<close>

datatype event_promise =
    createRequestResultPromise
  | requestStatusPendingPromise
  | incomingRequestPromise
  | responseResultPromise
  | requestStatusConfirmedPromise
  | dataRequestReceivedPromise
  | sendDataResultPromise
  | requestStatusSignedDataPromise
  | requestStatusCompletedPromise
  | requestStatusComplicatedPromise
  | closeRequestResultPromise
  | requestClosedPromise

text \<open>What a listener does, in order: \<open>p.resolve(v)\<close> and \<open>requestStatusUpdates.push(v)\<close>.\<close>

datatype effect = Resolve event_promise jsval | Push jsval

text \<open>One run of a listener: the effects it had, and the error it threw, if any.\<close>

record outcome =
  effects :: "effect list"
  thrown :: "js_error option"

definition returns :: "effect list \<Rightarrow> outcome" where
  "returns es = \<lparr>effects = es, thrown = None\<rparr>"

definition throws :: "effect list \<Rightarrow> js_error \<Rightarrow> outcome" where
  "throws es e = \<lparr>effects = es, thrown = Some e\<rparr>"

fun resolved :: "effect list \<Rightarrow> (event_promise \<times> jsval) list" where
  "resolved [] = []"
| "resolved (Resolve p v # es) = (p, v) # resolved es"
| "resolved (Push v # es) = resolved es"

fun pushed :: "effect list \<Rightarrow> jsval list" where
  "pushed [] = []"
| "pushed (Resolve p v # es) = pushed es"
| "pushed (Push v # es) = v # pushed es"

subsection \<open>NDID enable service destination test\<close>

text \<open>
  The identifiers the listeners close over (\<open>rpReferenceId\<close>, \<open>requestId\<close>, ...) are
  parameters. The first thing every listener evaluates is \<open>callbackData.type\<close>, which
  throws when \<open>callbackData\<close> is \<open>undefined\<close> or \<open>null\<close>; after it, no read of a field of
  \<open>callbackData\<close> can throw.
\<close>

definition enable_service_destination_rp_callback :: "jsval \<Rightarrow> jsval \<Rightarrow> outcome" where
  "enable_service_destination_rp_callback rpReferenceId callbackData =
    (if nullish callbackData then throws [] TypeError
     else if strict_eq (get_field callbackData ''type'') (Str ''create_request_result'') \<and>
             strict_eq (get_field callbackData ''reference_id'') rpReferenceId
       then returns [Resolve createRequestResultPromise callbackData]
     else returns [])"

definition enable_service_destination_idp1_callback :: "jsval \<Rightarrow> jsval \<Rightarrow> jsval \<Rightarrow> outcome" where
  "enable_service_destination_idp1_callback requestId idpReferenceId callbackData =
    (if nullish callbackData then throws [] TypeError
     else if strict_eq (get_field callbackData ''type'') (Str ''incoming_request'') \<and>
             strict_eq (get_field callbackData ''request_id'') requestId
       then returns [Resolve incomingRequestPromise callbackData]
     else if strict_eq (get_field callbackData ''type'') (Str ''response_result'') \<and>
             strict_eq (get_field callbackData ''reference_id'') idpReferenceId
       then returns [Resolve responseResultPromise callbackData]
     else returns [])"

definition enable_service_destination_as1_callback :: "jsval \<Rightarrow> jsval \<Rightarrow> jsval \<Rightarrow> outcome" where
  "enable_service_destination_as1_callback requestId asServiceReferenceId callbackData =
    (if nullish callbackData then throws [] TypeError
     else if strict_eq (get_field callbackData ''type'') (Str ''data_request'') \<and>
             strict_eq (get_field callbackData ''request_id'') requestId
       then returns [Resolve dataRequestReceivedPromise callbackData]
     else if strict_eq (get_field callbackData ''type'') (Str ''send_data_result'')
       then (if strict_eq (get_field callbackData ''reference_id'') asServiceReferenceId
               then returns [Resolve sendDataResultPromise callbackData]
             else returns [])
     else returns [])"

subsection \<open>Too large AS data size, response through callback, 1 IdP, 1 AS, mode 3\<close>

text \<open>
  The listener on the RP emitter. In the \<open>confirmed\<close> branch it evaluates
  \<open>callbackData.service_list[0].signed_data_count\<close>: the read of \<open>[0]\<close> throws when
  \<open>service_list\<close> is \<open>undefined\<close> or \<open>null\<close>, and the read of \<open>signed_data_count\<close> throws when
  \<open>service_list[0]\<close> is. The payload has been pushed onto \<open>requestStatusUpdates\<close> by then.
\<close>

definition too_large_as_data_rp_callback :: "jsval \<Rightarrow> jsval \<Rightarrow> jsval \<Rightarrow> outcome" where
  "too_large_as_data_rp_callback rpReferenceId requestId callbackData =
    (if nullish callbackData then throws [] TypeError
     else if strict_eq (get_field callbackData ''type'') (Str ''create_request_result'') \<and>
             strict_eq (get_field callbackData ''reference_id'') rpReferenceId
       then returns [Resolve createRequestResultPromise callbackData]
     else if strict_eq (get_field callbackData ''type'') (Str ''request_status'') \<and>
             strict_eq (get_field callbackData ''request_id'') requestId
       then
         (if strict_eq (get_field callbackData ''status'') (Str ''pending'')
            then returns [Push callbackData,
                          Resolve requestStatusPendingPromise callbackData]
          else if strict_eq (get_field callbackData ''status'') (Str ''confirmed'')
            then
              (if nullish (get_field callbackData ''service_list'')
                 then throws [Push callbackData] TypeError
               else if nullish (index0 (get_field callbackData ''service_list''))
                 then throws [Push callbackData] TypeError
               else if strict_eq
                         (get_field (index0 (get_field callbackData ''service_list''))
                            ''signed_data_count'')
                         (Num 1)
                 then returns [Push callbackData,
                               Resolve requestStatusSignedDataPromise callbackData]
               else returns [Push callbackData,
                             Resolve requestStatusConfirmedPromise callbackData])
          else if strict_eq (get_field callbackData ''status'') (Str ''completed'')
            then
              (if truthy (get_field callbackData ''closed'')
                 then returns [Push callbackData, Resolve requestClosedPromise callbackData]
               else returns [Push callbackData,
                             Resolve requestStatusCompletedPromise callbackData])
          else returns [Push callbackData])
     else returns [])"

subsection \<open>2 IdPs, min_idp = 2, 1 IdP accept consent and 1 IdP reject consent mode 1\<close>

definition two_idp_mode_1_rp_callback :: "jsval \<Rightarrow> jsval \<Rightarrow> jsval \<Rightarrow> jsval \<Rightarrow> outcome" where
  "two_idp_mode_1_rp_callback rpReferenceId requestId rpCloseRequestReferenceId callbackData =
    (if nullish callbackData then throws [] TypeError
     else if strict_eq (get_field callbackData ''type'') (Str ''create_request_result'') \<and>
             strict_eq (get_field callbackData ''reference_id'') rpReferenceId
       then returns [Resolve createRequestResultPromise callbackData]
     else if strict_eq (get_field callbackData ''type'') (Str ''request_status'') \<and>
             strict_eq (get_field callbackData ''request_id'') requestId
       then
         (if strict_eq (get_field callbackData ''status'') (Str ''pending'')
            then returns [Push callbackData,
                          Resolve requestStatusPendingPromise callbackData]
          else if strict_eq (get_field callbackData ''status'') (Str ''confirmed'')
            then returns [Push callbackData,
                          Resolve requestStatusConfirmedPromise callbackData]
          else if strict_eq (get_field callbackData ''status'') (Str ''complicated'')
            then returns
              ([Push callbackData] @
               (if truthy (get_field callbackData ''closed'')
                  then [Resolve requestClosedPromise callbackData] else []) @
               [Resolve requestStatusComplicatedPromise callbackData])
          else returns [Push callbackData])
     else if strict_eq (get_field callbackData ''type'') (Str ''close_request_result'') \<and>
             strict_eq (get_field callbackData ''reference_id'') rpCloseRequestReferenceId
       then returns [Resolve closeRequestResultPromise callbackData]
     else returns [])"

section \<open>src/tests/index.js\<close>

text \<open>
  The exported flags are module variables, \<open>undefined\<close> until \<open>checkForAvailableNodes\<close>
  assigns them. The functions the hook calls live in modules outside this development
  (\<open>../callback_server\<close>, \<open>../helpers\<close>): the state records the calls made, in order, and
  \<open>isNodeAvailable\<close> is a parameter, the value its promise resolves to for a node id.
\<close>

datatype suite_call =
    StartCallbackServers
  | StartDpkiCallbackServer
  | IsNodeAvailable string

record suite_state =
  ndidAvailable :: jsval
  rpAvailable :: jsval
  idp1Available :: jsval
  idp2Available :: jsval
  as1Available :: jsval
  as2Available :: jsval
  proxy1Available :: jsval
  proxy2Available :: jsval
  calls :: "suite_call list"

text \<open>\<open>Promise.all\<close> over the eight calls gives their results in the order of the array,
  and the destructuring assigns them by position.\<close>

definition checkForAvailableNodes :: "(string \<Rightarrow> jsval) \<Rightarrow> suite_state \<Rightarrow> suite_state" where
  "checkForAvailableNodes isNodeAvailable s =
    (let nodeIds = [''ndid1'', ''rp1'', ''idp1'', ''idp2'', ''as1'', ''as2'', ''proxy1'', ''proxy2''];
         results = map isNodeAvailable nodeIds
     in s\<lparr>ndidAvailable := results ! 0,
          rpAvailable := results ! 1,
          idp1Available := results ! 2,
          idp2Available := results ! 3,
          as1Available := results ! 4,
          as2Available := results ! 5,
          proxy1Available := results ! 6,
          proxy2Available := results ! 7,
          calls := calls s @ map IsNodeAvailable nodeIds\<rparr>)"

text \<open>The \<open>before\<close> hook of the top-level suite: the error it throws, if any, and the state
  it leaves.\<close>

definition suite_before ::
  "bool \<Rightarrow> (string \<Rightarrow> jsval) \<Rightarrow> suite_state \<Rightarrow> js_error option \<times> suite_state" where
  "suite_before USE_EXTERNAL_CRYPTO_SERVICE isNodeAvailable s =
    (let s1 = s\<lparr>calls := calls s @ [StartCallbackServers]\<rparr>;
         s2 = (if USE_EXTERNAL_CRYPTO_SERVICE
                 then s1\<lparr>calls := calls s1 @ [StartDpkiCallbackServer]\<rparr> else s1);
         s3 = checkForAvailableNodes isNodeAvailable s2
     in if \<not> truthy (rpAvailable s3) \<or> \<not> truthy (idp1Available s3)
          then (Some (Error ''Could not connect to RP and IdP-1 nodes''), s3)
        else (None, s3))"

fun availability_checks :: "suite_call list \<Rightarrow> string list" where
  "availability_checks [] = []"
| "availability_checks (IsNodeAvailable n # cs) = n # availability_checks cs"
| "availability_checks (c # cs) = availability_checks cs"

section \<open>Hooks of the test files\<close>

text \<open>How a hook ends: it returns, it calls \<open>this.skip()\<close> (which leaves the hook at once),
  or it throws.\<close>

datatype hook_status = Passed | Skipped | Failed js_error

subsection \<open>src/tests/token/reduce_token_fail_tx.js\<close>

text \<open>
  The file keeps one variable, \<open>nodeTokenBeforeTest\<close>, initially \<open>0\<close>. The platform the
  hooks talk to is outside the repository and is a parameter, over any type \<open>'w\<close> of
  platform states: \<open>getToken w nodeId\<close> is what \<open>commonApi.getToken(nodeId)\<close> followed by
  \<open>response.json()\<close> gives in state \<open>w\<close> (a rejection, or the parsed body), and
  \<open>setNodeToken nodeId body w\<close> is the state after \<open>ndidApi.setNodeToken(nodeId, body)\<close>.
\<close>

record 'w platform =
  getToken :: "'w \<Rightarrow> string \<Rightarrow> js_error + jsval"
  setNodeToken :: "string \<Rightarrow> jsval \<Rightarrow> 'w \<Rightarrow> 'w"

record reduce_token_vars =
  nodeTokenBeforeTest :: jsval

definition reduce_token_init :: reduce_token_vars where
  "reduce_token_init = \<lparr>nodeTokenBeforeTest = Num 0\<rparr>"

definition reduce_token_before ::
  "'w platform \<Rightarrow> suite_state \<Rightarrow> 'w \<Rightarrow> reduce_token_vars \<Rightarrow> hook_status \<times> reduce_token_vars" where
  "reduce_token_before api suite w vars =
    (if \<not> truthy (ndidAvailable suite) \<or> \<not> truthy (idp1Available suite)
       then (Skipped, vars)
     else
       (case getToken api w ''idp1'' of
          Inl e \<Rightarrow> (Failed e, vars)
        | Inr responseBody \<Rightarrow>
            if nullish responseBody then (Failed TypeError, vars)
            else (Passed, vars\<lparr>nodeTokenBeforeTest := get_field responseBody ''amount''\<rparr>)))"

text \<open>The \<open>after\<close> hook: the node it calls and the body it sends, and the platform state
  the call leaves. The assertion on the response status follows the call.\<close>

definition reduce_token_after_request :: "reduce_token_vars \<Rightarrow> string \<times> jsval" where
  "reduce_token_after_request vars =
    (''ndid1'', Obj [(''node_id'', Str ''idp1''), (''amount'', nodeTokenBeforeTest vars)])"

definition reduce_token_after :: "'w platform \<Rightarrow> reduce_token_vars \<Rightarrow> 'w \<Rightarrow> 'w" where
  "reduce_token_after api vars w =
    (case reduce_token_after_request vars of (nodeId, body) \<Rightarrow> setNodeToken api nodeId body w)"

subsection \<open>Subscriptions to the callback emitters\<close>

text \<open>
  The emitters are Node event emitters exported by the callback server: for each event
  name, the list of listeners in the order they were added. \<open>on\<close> adds one at the end and
  \<open>removeAllListeners(eventName)\<close> empties the list of that event. A listener is the function
  a test file passes to \<open>on\<close>, named by the file, the emitter and the event.
\<close>

datatype emitter = rpEventEmitter | idp1EventEmitter | idp2EventEmitter | as1EventEmitter

datatype test_file =
    enable_service_destination
  | too_large_as_data
  | two_idp_1_accept_1_reject_mode_1
  | create_identity_2nd_idp
  | enable_namespace

datatype listener = Listener test_file emitter string

type_synonym registry = "emitter \<Rightarrow> string \<Rightarrow> listener list"

definition on :: "emitter \<Rightarrow> string \<Rightarrow> listener \<Rightarrow> registry \<Rightarrow> registry" where
  "on e eventName l r = r(e := (r e)(eventName := r e eventName @ [l]))"

definition removeAllListeners :: "emitter \<Rightarrow> string \<Rightarrow> registry \<Rightarrow> registry" where
  "removeAllListeners e eventName r = r(e := (r e)(eventName := []))"

text \<open>\<open>file.subscribe(e, eventName)\<close> stands for \<open>e.on(eventName, function ...)\<close> in that file.\<close>

definition subscribe :: "test_file \<Rightarrow> emitter \<Rightarrow> string \<Rightarrow> registry \<Rightarrow> registry" where
  "subscribe f e eventName r = on e eventName (Listener f e eventName) r"

text \<open>
  The \<open>before\<close> hook of each file, as far as the emitters go, with the checks that can end
  it before it subscribes. \<open>suite\<close> holds the availability flags the file imports, and
  \<open>idp1Identities\<close> is \<open>db.idp1Identities\<close>; \<open>x == null\<close> holds for \<open>undefined\<close> and \<open>null\<close>.
\<close>

fun before_hook :: "test_file \<Rightarrow> suite_state \<Rightarrow> jsval list \<Rightarrow> registry \<Rightarrow> hook_status \<times> registry" where
  "before_hook enable_service_destination suite idp1Identities r =
    (if \<not> truthy (ndidAvailable suite) \<or> \<not> truthy (as1Available suite)
        \<or> \<not> truthy (idp1Available suite)
       then (Skipped, r)
     else (Passed,
           subscribe enable_service_destination as1EventEmitter ''callback''
             (subscribe enable_service_destination idp1EventEmitter ''callback''
               (subscribe enable_service_destination rpEventEmitter ''callback'' r))))"
| "before_hook too_large_as_data suite idp1Identities r =
    (if nullish (index0 (Arr idp1Identities))
       then (Failed (Error ''No created identity to use''), r)
     else (Passed,
           subscribe too_large_as_data as1EventEmitter ''callback''
             (subscribe too_large_as_data idp1EventEmitter ''callback''
               (subscribe too_large_as_data rpEventEmitter ''callback'' r))))"
| "before_hook two_idp_1_accept_1_reject_mode_1 suite idp1Identities r =
    (if \<not> truthy (idp2Available suite) then (Skipped, r)
     else (Passed,
           subscribe two_idp_1_accept_1_reject_mode_1 idp2EventEmitter ''callback''
             (subscribe two_idp_1_accept_1_reject_mode_1 idp1EventEmitter ''callback''
               (subscribe two_idp_1_accept_1_reject_mode_1 rpEventEmitter ''callback'' r))))"
| "before_hook create_identity_2nd_idp suite idp1Identities r =
    (if \<not> truthy (idp2Available suite) then (Skipped, r)
     else if nullish (index0 (Arr idp1Identities))
       then (Failed (Error ''No created identity to use''), r)
     else (Passed,
           subscribe create_identity_2nd_idp idp2EventEmitter ''accessor_sign_callback''
             (subscribe create_identity_2nd_idp idp2EventEmitter ''callback''
               (subscribe create_identity_2nd_idp idp1EventEmitter ''callback'' r))))"
| "before_hook enable_namespace suite idp1Identities r =
    (Passed,
     subscribe enable_namespace idp1EventEmitter ''accessor_sign_callback''
       (subscribe enable_namespace idp1EventEmitter ''callback'' r))"

fun after_hook :: "test_file \<Rightarrow> registry \<Rightarrow> registry" where
  "after_hook enable_service_destination r =
    removeAllListeners as1EventEmitter ''callback''
      (removeAllListeners idp1EventEmitter ''callback''
        (removeAllListeners rpEventEmitter ''callback'' r))"
| "after_hook too_large_as_data r =
    removeAllListeners as1EventEmitter ''callback''
      (removeAllListeners idp1EventEmitter ''callback''
        (removeAllListeners rpEventEmitter ''callback'' r))"
| "after_hook two_idp_1_accept_1_reject_mode_1 r =
    removeAllListeners idp2EventEmitter ''callback''
      (removeAllListeners idp1EventEmitter ''callback''
        (removeAllListeners rpEventEmitter ''callback'' r))"
| "after_hook create_identity_2nd_idp r =
    removeAllListeners idp2EventEmitter ''accessor_sign_callback''
      (removeAllListeners idp2EventEmitter ''callback''
        (removeAllListeners idp1EventEmitter ''callback'' r))"
| "after_hook enable_namespace r =
    removeAllListeners idp1EventEmitter ''accessor_sign_callback''
      (removeAllListeners idp1EventEmitter ''callback'' r)"

text \<open>The emitters once the file is over: no test of these files subscribes or
  unsubscribes, so they are as the \<open>before\<close> hook left them when the \<open>after\<close> hook runs.\<close>

definition registry_after_file :: "test_file \<Rightarrow> suite_state \<Rightarrow> jsval list \<Rightarrow> registry \<Rightarrow> registry" where
  "registry_after_file f suite idp1Identities r =
    after_hook f (snd (before_hook f suite idp1Identities r))"

section \<open>Facts about the value model\<close>

lemma strict_eq_Str: "strict_eq v (Str s) = (v = Str s)"
  by (cases v) auto

lemma strict_eq_Num: "strict_eq v (Num n) = (v = Num n)"
  by (cases v) auto

section \<open>Properties of getApiAddressUrl\<close>

lemma mapped_address_falsy:
  "\<forall>m. nodeIdMappingAddress = Some m \<longrightarrow> \<not> truthy (m nodeId)
   \<Longrightarrow> \<not> truthy (mapped_address nodeIdMappingAddress nodeId)"
  by (cases nodeIdMappingAddress) (simp_all add: mapped_address_def)

lemma getApiAddressUrl_unmapped:
  "\<not> truthy (mapped_address nodeIdMappingAddress nodeId) \<Longrightarrow>
   getApiAddressUrl nodeIdMappingAddress nodeId =
    (if nodeId = Str ''rp1'' then Inr (Str ''http://localhost:8200'')
     else if nodeId = Str ''rp2'' then Inr (Str ''http://localhost:8201'')
     else if nodeId = Str ''idp1'' then Inr (Str ''http://localhost:8100'')
     else if nodeId = Str ''idp2'' then Inr (Str ''http://localhost:8101'')
     else if nodeId = Str ''idp3'' then Inr (Str ''http://localhost:8102'')
     else if nodeId = Str ''as1'' then Inr (Str ''http://localhost:8300'')
     else if nodeId = Str ''as2'' then Inr (Str ''http://localhost:8301'')
     else if nodeId = Str ''ndid1'' then Inr (Str ''http://localhost:8080'')
     else if nodeId = Str ''proxy1'' then Inr (Str ''http://localhost:8400'')
     else if nodeId = Str ''proxy2'' then Inr (Str ''http://localhost:8401'')
     else Inl (Error ''Unsupported Node ID''))"
  by (simp only: getApiAddressUrl_def strict_eq_Str if_False)

text \<open>
  Claim C1. When \<open>nodeIdMappingAddress\<close> is not configured, or holds no truthy entry for
  the node id (in particular no entry at all), each of the ten supported node ids gets
  its fixed localhost address: rp1 8200, rp2 8201, idp1 8100, idp2 8101, idp3 8102,
  as1 8300, as2 8301, ndid1 8080, proxy1 8400, proxy2 8401.
\<close>

theorem getApiAddressUrl_builtin_defaults:
  assumes "\<forall>m. nodeIdMappingAddress = Some m \<longrightarrow> \<not> truthy (m (Str nodeId))"
  shows "(nodeId = ''rp1'' \<longrightarrow>
            getApiAddressUrl nodeIdMappingAddress (Str nodeId) = Inr (Str ''http://localhost:8200''))
       \<and> (nodeId = ''rp2'' \<longrightarrow>
            getApiAddressUrl nodeIdMappingAddress (Str nodeId) = Inr (Str ''http://localhost:8201''))
       \<and> (nodeId = ''idp1'' \<longrightarrow>
            getApiAddressUrl nodeIdMappingAddress (Str nodeId) = Inr (Str ''http://localhost:8100''))
       \<and> (nodeId = ''idp2'' \<longrightarrow>
            getApiAddressUrl nodeIdMappingAddress (Str nodeId) = Inr (Str ''http://localhost:8101''))
       \<and> (nodeId = ''idp3'' \<longrightarrow>
            getApiAddressUrl nodeIdMappingAddress (Str nodeId) = Inr (Str ''http://localhost:8102''))
       \<and> (nodeId = ''as1'' \<longrightarrow>
            getApiAddressUrl nodeIdMappingAddress (Str nodeId) = Inr (Str ''http://localhost:8300''))
       \<and> (nodeId = ''as2'' \<longrightarrow>
            getApiAddressUrl nodeIdMappingAddress (Str nodeId) = Inr (Str ''http://localhost:8301''))
       \<and> (nodeId = ''ndid1'' \<longrightarrow>
            getApiAddressUrl nodeIdMappingAddress (Str nodeId) = Inr (Str ''http://localhost:8080''))
       \<and> (nodeId = ''proxy1'' \<longrightarrow>
            getApiAddressUrl nodeIdMappingAddress (Str nodeId) = Inr (Str ''http://localhost:8400''))
       \<and> (nodeId = ''proxy2'' \<longrightarrow>
            getApiAddressUrl nodeIdMappingAddress (Str nodeId) = Inr (Str ''http://localhost:8401''))"
  unfolding getApiAddressUrl_unmapped [OF mapped_address_falsy [OF assms]]
  by simp

theorem getApiAddressUrl_builtin_defaults_witness:
  "getApiAddressUrl
     (Some (\<lambda>k. if k = Str ''rp1'' then Str ''http://10.0.0.5:8200'' else Undefined))
     (Str ''idp1'')
   = Inr (Str ''http://localhost:8100'')"
  using getApiAddressUrl_builtin_defaults
    [of "Some (\<lambda>k. if k = Str ''rp1'' then Str ''http://10.0.0.5:8200'' else Undefined)"
        "''idp1''"]
  by simp

text \<open>
  Claim C8. Whenever the configured \<open>nodeIdMappingAddress\<close> is truthy and its entry for
  the node id is truthy, \<open>getApiAddressUrl\<close> returns that entry: it wins over the
  built-in localhost address of the ten known ids, and for any other id it is returned
  too, with no error thrown.
\<close>

theorem getApiAddressUrl_mapping_precedence:
  "truthy (m nodeId) \<Longrightarrow> getApiAddressUrl (Some m) nodeId = Inr (m nodeId)"
  by (simp add: getApiAddressUrl_def mapped_address_def)

theorem getApiAddressUrl_mapping_precedence_witness:
  "getApiAddressUrl
     (Some (\<lambda>k. if k = Str ''rp1'' then Str ''http://10.0.0.5:8200''
                 else if k = Str ''rp9'' then Str ''http://10.0.0.9:8200'' else Undefined))
     (Str ''rp1'')
     = Inr (Str ''http://10.0.0.5:8200'')
   \<and> getApiAddressUrl
     (Some (\<lambda>k. if k = Str ''rp1'' then Str ''http://10.0.0.5:8200''
                 else if k = Str ''rp9'' then Str ''http://10.0.0.9:8200'' else Undefined))
     (Str ''rp9'')
     = Inr (Str ''http://10.0.0.9:8200'')"
  using getApiAddressUrl_mapping_precedence
    [of "\<lambda>k. if k = Str ''rp1'' then Str ''http://10.0.0.5:8200''
             else if k = Str ''rp9'' then Str ''http://10.0.0.9:8200'' else Undefined"
        "Str ''rp1''"]
    getApiAddressUrl_mapping_precedence
    [of "\<lambda>k. if k = Str ''rp1'' then Str ''http://10.0.0.5:8200''
             else if k = Str ''rp9'' then Str ''http://10.0.0.9:8200'' else Undefined"
        "Str ''rp9''"]
  by simp

text \<open>
  Claim C9, as the code has it. A node id that is none of the ten built-in ids, and for
  which \<open>nodeIdMappingAddress\<close> is not configured or the read
  \<open>nodeIdMappingAddress[nodeId]\<close> is falsy (the id names no truthy entry of the mapping
  and no truthy property that the mapping object inherits), makes \<open>getApiAddressUrl\<close>
  throw \<open>Error('Unsupported Node ID')\<close>: no address is returned.
\<close>

theorem getApiAddressUrl_unsupported:
  assumes "\<forall>m. nodeIdMappingAddress = Some m \<longrightarrow> \<not> truthy (m nodeId)"
    and "nodeId \<notin> {Str ''rp1'', Str ''rp2'', Str ''idp1'', Str ''idp2'', Str ''idp3'',
                     Str ''as1'', Str ''as2'', Str ''ndid1'', Str ''proxy1'', Str ''proxy2''}"
  shows "getApiAddressUrl nodeIdMappingAddress nodeId = Inl (Error ''Unsupported Node ID'')"
  using assms(2) mapped_address_falsy [OF assms(1)]
  by (simp add: getApiAddressUrl_def strict_eq_Str)

theorem getApiAddressUrl_unsupported_witness:
  "getApiAddressUrl
     (Some (\<lambda>k. if k = Str ''rp1'' then Str ''http://10.0.0.5:8200'' else Undefined))
     (Str ''rp3'')
     = Inl (Error ''Unsupported Node ID'')
   \<and> getApiAddressUrl None (Str ''RP1'') = Inl (Error ''Unsupported Node ID'')"
  using getApiAddressUrl_unsupported
    [of "Some (\<lambda>k. if k = Str ''rp1'' then Str ''http://10.0.0.5:8200'' else Undefined)"
        "Str ''rp3''"]
    getApiAddressUrl_unsupported [of None "Str ''RP1''"]
  by simp

text \<open>
  The claim as written (every id outside the ten with no truthy entry throws) fails for
  the id \<open>toString\<close> and the empty mapping \<open>{}\<close>: the id is not built-in and the mapping
  has no entry for it, but the read finds the function that every object inherits, which
  is truthy, and \<open>getApiAddressUrl\<close> returns it instead of throwing.
\<close>

theorem getApiAddressUrl_inherited_toString:
  "map_of ([] :: (string \<times> jsval) list) ''toString'' = None
   \<and> getApiAddressUrl (Some (plain_object [])) (Str ''toString'') = Inr (Fun ''toString'')"
  by (simp add: getApiAddressUrl_def mapped_address_def inherited_property_def
      Object_prototype_def own_property_def)

section \<open>Properties of httpGet and httpPost\<close>

text \<open>
  Claim C6. For every url and body, \<open>httpPost\<close> calls \<open>fetch\<close> on that url with method
  POST, the headers \<open>Accept: application/json\<close> and \<open>Content-Type: application/json\<close>, and
  the body \<open>JSON.stringify(body)\<close>; for every url, \<open>httpGet\<close> calls \<open>fetch\<close> on that url with
  method GET, the one header \<open>Accept: application/json\<close>, and no body.
\<close>

theorem http_helpers_requests:
  "httpPost JSON_stringify url body =
     \<lparr>resource = url, init_method = ''POST'',
      init_headers = [(''Accept'', ''application/json''),
                      (''Content-Type'', ''application/json'')],
      init_body = JSON_stringify body\<rparr>
   \<and> httpGet url =
     \<lparr>resource = url, init_method = ''GET'',
      init_headers = [(''Accept'', ''application/json'')],
      init_body = None\<rparr>"
  by (simp add: httpPost_def httpGet_def)

section \<open>Properties of the callback listeners\<close>

lemma get_field_Str_not_nullish: "get_field v k = Str s \<Longrightarrow> \<not> nullish v"
  by (cases v) auto

text \<open>
  Claim C2. In the enable-service-destination test a listener calls \<open>resolve\<close> on a
  promise exactly when the callback is the one the promise waits for, and always with
  the callback itself. RP: \<open>createRequestResultPromise\<close> for type
  \<open>create_request_result\<close> and \<open>reference_id === rpReferenceId\<close>. IdP:
  \<open>incomingRequestPromise\<close> for type \<open>incoming_request\<close> and \<open>request_id === requestId\<close>,
  \<open>responseResultPromise\<close> for type \<open>response_result\<close> and
  \<open>reference_id === idpReferenceId\<close>. AS: \<open>dataRequestReceivedPromise\<close> for type
  \<open>data_request\<close> and \<open>request_id === requestId\<close>, \<open>sendDataResultPromise\<close> for type
  \<open>send_data_result\<close> and \<open>reference_id === asServiceReferenceId\<close>. Any other callback
  resolves no promise.
\<close>

theorem enable_service_destination_resolves_exactly:
  "(Resolve p v \<in> set (effects
      (enable_service_destination_rp_callback rpReferenceId callbackData))) =
     (v = callbackData \<and> p = createRequestResultPromise \<and>
      get_field callbackData ''type'' = Str ''create_request_result'' \<and>
      strict_eq (get_field callbackData ''reference_id'') rpReferenceId)
   \<and> (Resolve p v \<in> set (effects
      (enable_service_destination_idp1_callback requestId idpReferenceId callbackData))) =
     (v = callbackData \<and>
      (p = incomingRequestPromise \<and>
         get_field callbackData ''type'' = Str ''incoming_request'' \<and>
         strict_eq (get_field callbackData ''request_id'') requestId
       \<or> p = responseResultPromise \<and>
         get_field callbackData ''type'' = Str ''response_result'' \<and>
         strict_eq (get_field callbackData ''reference_id'') idpReferenceId))
   \<and> (Resolve p v \<in> set (effects
      (enable_service_destination_as1_callback requestId asServiceReferenceId callbackData))) =
     (v = callbackData \<and>
      (p = dataRequestReceivedPromise \<and>
         get_field callbackData ''type'' = Str ''data_request'' \<and>
         strict_eq (get_field callbackData ''request_id'') requestId
       \<or> p = sendDataResultPromise \<and>
         get_field callbackData ''type'' = Str ''send_data_result'' \<and>
         strict_eq (get_field callbackData ''reference_id'') asServiceReferenceId))"
proof (cases "nullish callbackData")
  case True
  then have "get_field callbackData ''type'' = Undefined"
    by (cases callbackData) simp_all
  with True show ?thesis
    by (simp add: enable_service_destination_rp_callback_def
        enable_service_destination_idp1_callback_def
        enable_service_destination_as1_callback_def throws_def)
next
  case False
  have rp: "(Resolve p v \<in> set (effects
      (enable_service_destination_rp_callback rpReferenceId callbackData))) =
     (v = callbackData \<and> p = createRequestResultPromise \<and>
      get_field callbackData ''type'' = Str ''create_request_result'' \<and>
      strict_eq (get_field callbackData ''reference_id'') rpReferenceId)"
    using False
    by (auto simp: enable_service_destination_rp_callback_def returns_def strict_eq_Str)
  have idp: "(Resolve p v \<in> set (effects
      (enable_service_destination_idp1_callback requestId idpReferenceId callbackData))) =
     (v = callbackData \<and>
      (p = incomingRequestPromise \<and>
         get_field callbackData ''type'' = Str ''incoming_request'' \<and>
         strict_eq (get_field callbackData ''request_id'') requestId
       \<or> p = responseResultPromise \<and>
         get_field callbackData ''type'' = Str ''response_result'' \<and>
         strict_eq (get_field callbackData ''reference_id'') idpReferenceId))"
    using False
    by (auto simp: enable_service_destination_idp1_callback_def returns_def strict_eq_Str)
  have as: "(Resolve p v \<in> set (effects
      (enable_service_destination_as1_callback requestId asServiceReferenceId callbackData))) =
     (v = callbackData \<and>
      (p = dataRequestReceivedPromise \<and>
         get_field callbackData ''type'' = Str ''data_request'' \<and>
         strict_eq (get_field callbackData ''request_id'') requestId
       \<or> p = sendDataResultPromise \<and>
         get_field callbackData ''type'' = Str ''send_data_result'' \<and>
         strict_eq (get_field callbackData ''reference_id'') asServiceReferenceId))"
    using False
    by (auto simp: enable_service_destination_as1_callback_def returns_def strict_eq_Str)
  from rp idp as show ?thesis by (intro conjI)
qed

text \<open>
  Claim C3, as the code has it. In the too-large-AS-data test, a \<open>request_status\<close>
  callback with \<open>request_id === requestId\<close> resolves \<open>requestStatusPendingPromise\<close> when its
  status is \<open>pending\<close>. When its status is \<open>confirmed\<close> and \<open>service_list[0]\<close> can be read
  (neither \<open>service_list\<close> nor \<open>service_list[0]\<close> is \<open>undefined\<close> or \<open>null\<close>), it resolves
  \<open>requestStatusSignedDataPromise\<close> if \<open>service_list[0].signed_data_count === 1\<close> and
  \<open>requestStatusConfirmedPromise\<close> otherwise; when \<open>service_list[0]\<close> cannot be read, the
  listener throws a \<open>TypeError\<close> and resolves nothing. When its status is \<open>completed\<close> it
  resolves \<open>requestClosedPromise\<close> if \<open>closed\<close> is truthy and
  \<open>requestStatusCompletedPromise\<close> otherwise. With any other status, \<open>complicated\<close>
  included, it resolves nothing. In every case at most one promise is resolved.
\<close>

theorem too_large_as_data_request_status_dispatch:
  assumes "get_field callbackData ''type'' = Str ''request_status''"
    and "strict_eq (get_field callbackData ''request_id'') requestId"
  shows "(get_field callbackData ''status'' = Str ''pending'' \<longrightarrow>
           resolved (effects (too_large_as_data_rp_callback rpReferenceId requestId callbackData))
             = [(requestStatusPendingPromise, callbackData)])
       \<and> (get_field callbackData ''status'' = Str ''confirmed'' \<and>
          \<not> nullish (get_field callbackData ''service_list'') \<and>
          \<not> nullish (index0 (get_field callbackData ''service_list'')) \<longrightarrow>
           resolved (effects (too_large_as_data_rp_callback rpReferenceId requestId callbackData))
             = [(if get_field (index0 (get_field callbackData ''service_list''))
                      ''signed_data_count'' = Num 1
                   then requestStatusSignedDataPromise
                 else requestStatusConfirmedPromise, callbackData)])
       \<and> (get_field callbackData ''status'' = Str ''confirmed'' \<and>
          (nullish (get_field callbackData ''service_list'') \<or>
           nullish (index0 (get_field callbackData ''service_list''))) \<longrightarrow>
           resolved (effects (too_large_as_data_rp_callback rpReferenceId requestId callbackData))
             = [] \<and>
           thrown (too_large_as_data_rp_callback rpReferenceId requestId callbackData)
             = Some TypeError)
       \<and> (get_field callbackData ''status'' = Str ''completed'' \<longrightarrow>
           resolved (effects (too_large_as_data_rp_callback rpReferenceId requestId callbackData))
             = [(if truthy (get_field callbackData ''closed'')
                   then requestClosedPromise
                 else requestStatusCompletedPromise, callbackData)])
       \<and> (get_field callbackData ''status'' \<notin>
            {Str ''pending'', Str ''confirmed'', Str ''completed''} \<longrightarrow>
           resolved (effects (too_large_as_data_rp_callback rpReferenceId requestId callbackData))
             = [])
       \<and> length (resolved (effects
            (too_large_as_data_rp_callback rpReferenceId requestId callbackData))) \<le> 1"
proof -
  have live: "\<not> nullish callbackData"
    using assms(1) by (rule get_field_Str_not_nullish)
  have branch:
    "too_large_as_data_rp_callback rpReferenceId requestId callbackData =
      (if get_field callbackData ''status'' = Str ''pending''
         then returns [Push callbackData, Resolve requestStatusPendingPromise callbackData]
       else if get_field callbackData ''status'' = Str ''confirmed''
         then
           (if nullish (get_field callbackData ''service_list'')
              then throws [Push callbackData] TypeError
            else if nullish (index0 (get_field callbackData ''service_list''))
              then throws [Push callbackData] TypeError
            else if get_field (index0 (get_field callbackData ''service_list''))
                      ''signed_data_count'' = Num 1
              then returns [Push callbackData,
                            Resolve requestStatusSignedDataPromise callbackData]
            else returns [Push callbackData,
                          Resolve requestStatusConfirmedPromise callbackData])
       else if get_field callbackData ''status'' = Str ''completed''
         then
           (if truthy (get_field callbackData ''closed'')
              then returns [Push callbackData, Resolve requestClosedPromise callbackData]
            else returns [Push callbackData,
                          Resolve requestStatusCompletedPromise callbackData])
       else returns [Push callbackData])"
    using live assms
    by (simp add: too_large_as_data_rp_callback_def strict_eq_Str strict_eq_Num)
  show ?thesis
    unfolding branch by (simp add: returns_def throws_def)
qed

theorem too_large_as_data_request_status_dispatch_witness:
  "resolved (effects (too_large_as_data_rp_callback (Str ''ref-1'') (Str ''req-1'')
     (Obj [(''type'', Str ''request_status''), (''request_id'', Str ''req-1''),
           (''status'', Str ''confirmed''),
           (''service_list'', Arr [Obj [(''signed_data_count'', Num 1)]])])))
   = [(requestStatusSignedDataPromise,
       Obj [(''type'', Str ''request_status''), (''request_id'', Str ''req-1''),
            (''status'', Str ''confirmed''),
            (''service_list'', Arr [Obj [(''signed_data_count'', Num 1)]])])]"
  using too_large_as_data_request_status_dispatch
    [of "Obj [(''type'', Str ''request_status''), (''request_id'', Str ''req-1''),
              (''status'', Str ''confirmed''),
              (''service_list'', Arr [Obj [(''signed_data_count'', Num 1)]])]"
        "Str ''req-1''" "Str ''ref-1''"]
  by (simp add: own_property_def)

text \<open>
  The claim as written (a \<open>confirmed\<close> callback resolves one of the two promises) fails for
  a \<open>confirmed\<close> callback whose \<open>service_list\<close> is empty: \<open>service_list[0]\<close> is \<open>undefined\<close>,
  reading \<open>signed_data_count\<close> from it throws, and neither promise is resolved.
\<close>

theorem too_large_as_data_confirmed_empty_service_list:
  "resolved (effects (too_large_as_data_rp_callback (Str ''ref-1'') (Str ''req-1'')
     (Obj [(''type'', Str ''request_status''), (''request_id'', Str ''req-1''),
           (''status'', Str ''confirmed''), (''service_list'', Arr [])]))) = []
   \<and> thrown (too_large_as_data_rp_callback (Str ''ref-1'') (Str ''req-1'')
     (Obj [(''type'', Str ''request_status''), (''request_id'', Str ''req-1''),
           (''status'', Str ''confirmed''), (''service_list'', Arr [])])) = Some TypeError"
  by (simp add: too_large_as_data_rp_callback_def own_property_def throws_def)

text \<open>
  Claim C4. In the 2-IdP mode-1 test, a \<open>request_status\<close> callback with
  \<open>request_id === requestId\<close> is pushed onto \<open>requestStatusUpdates\<close> (once) whatever its
  status, and the listener does not throw. When its status is \<open>complicated\<close> it resolves
  \<open>requestStatusComplicatedPromise\<close>; when moreover \<open>closed\<close> is truthy (so in particular
  when it is \<open>true\<close>), that same callback resolves \<open>requestClosedPromise\<close> and then
  \<open>requestStatusComplicatedPromise\<close>.
\<close>

theorem two_idp_mode_1_complicated_and_updates:
  assumes "get_field callbackData ''type'' = Str ''request_status''"
    and "strict_eq (get_field callbackData ''request_id'') requestId"
  shows "pushed (effects (two_idp_mode_1_rp_callback rpReferenceId requestId
                   rpCloseRequestReferenceId callbackData)) = [callbackData]
       \<and> thrown (two_idp_mode_1_rp_callback rpReferenceId requestId
                   rpCloseRequestReferenceId callbackData) = None
       \<and> (get_field callbackData ''status'' = Str ''complicated'' \<longrightarrow>
            Resolve requestStatusComplicatedPromise callbackData
              \<in> set (effects (two_idp_mode_1_rp_callback rpReferenceId requestId
                        rpCloseRequestReferenceId callbackData)))
       \<and> (get_field callbackData ''status'' = Str ''complicated'' \<and>
          truthy (get_field callbackData ''closed'') \<longrightarrow>
            resolved (effects (two_idp_mode_1_rp_callback rpReferenceId requestId
                        rpCloseRequestReferenceId callbackData))
              = [(requestClosedPromise, callbackData),
                 (requestStatusComplicatedPromise, callbackData)])"
proof -
  have live: "\<not> nullish callbackData"
    using assms(1) by (rule get_field_Str_not_nullish)
  have branch:
    "two_idp_mode_1_rp_callback rpReferenceId requestId rpCloseRequestReferenceId callbackData =
      (if get_field callbackData ''status'' = Str ''pending''
         then returns [Push callbackData, Resolve requestStatusPendingPromise callbackData]
       else if get_field callbackData ''status'' = Str ''confirmed''
         then returns [Push callbackData, Resolve requestStatusConfirmedPromise callbackData]
       else if get_field callbackData ''status'' = Str ''complicated''
         then returns
           ([Push callbackData] @
            (if truthy (get_field callbackData ''closed'')
               then [Resolve requestClosedPromise callbackData] else []) @
            [Resolve requestStatusComplicatedPromise callbackData])
       else returns [Push callbackData])"
    using live assms
    by (simp add: two_idp_mode_1_rp_callback_def strict_eq_Str)
  show ?thesis
    unfolding branch by (simp add: returns_def)
qed

theorem two_idp_mode_1_complicated_and_updates_witness:
  "pushed (effects (two_idp_mode_1_rp_callback (Str ''ref-1'') (Str ''req-1'') (Str ''ref-2'')
     (Obj [(''type'', Str ''request_status''), (''request_id'', Str ''req-1''),
           (''status'', Str ''complicated''), (''closed'', Bool True)])))
   = [Obj [(''type'', Str ''request_status''), (''request_id'', Str ''req-1''),
           (''status'', Str ''complicated''), (''closed'', Bool True)]]
   \<and> resolved (effects (two_idp_mode_1_rp_callback (Str ''ref-1'') (Str ''req-1'') (Str ''ref-2'')
     (Obj [(''type'', Str ''request_status''), (''request_id'', Str ''req-1''),
           (''status'', Str ''complicated''), (''closed'', Bool True)])))
   = [(requestClosedPromise,
       Obj [(''type'', Str ''request_status''), (''request_id'', Str ''req-1''),
            (''status'', Str ''complicated''), (''closed'', Bool True)]),
      (requestStatusComplicatedPromise,
       Obj [(''type'', Str ''request_status''), (''request_id'', Str ''req-1''),
            (''status'', Str ''complicated''), (''closed'', Bool True)])]"
  using two_idp_mode_1_complicated_and_updates
    [of "Obj [(''type'', Str ''request_status''), (''request_id'', Str ''req-1''),
              (''status'', Str ''complicated''), (''closed'', Bool True)]"
        "Str ''req-1''" "Str ''ref-1''" "Str ''ref-2''"]
  by (simp add: own_property_def)

section \<open>Properties of the top-level suite\<close>

text \<open>
  Claim C5. The \<open>before\<close> hook of the top-level suite asks \<open>isNodeAvailable\<close> about exactly
  the eight nodes ndid1, rp1, idp1, idp2, as1, as2, proxy1, proxy2, sets each exported
  flag to the answer for its own node, and throws
  \<open>Error('Could not connect to RP and IdP-1 nodes')\<close> if and only if rp1 or idp1 is not
  available; the answers for the other six nodes never make it throw.
\<close>

theorem suite_before_availability:
  "availability_checks (calls (snd (suite_before USE_EXTERNAL_CRYPTO_SERVICE isNodeAvailable s)))
     = availability_checks (calls s)
       @ [''ndid1'', ''rp1'', ''idp1'', ''idp2'', ''as1'', ''as2'', ''proxy1'', ''proxy2'']
   \<and> ndidAvailable (snd (suite_before USE_EXTERNAL_CRYPTO_SERVICE isNodeAvailable s))
       = isNodeAvailable ''ndid1''
   \<and> rpAvailable (snd (suite_before USE_EXTERNAL_CRYPTO_SERVICE isNodeAvailable s))
       = isNodeAvailable ''rp1''
   \<and> idp1Available (snd (suite_before USE_EXTERNAL_CRYPTO_SERVICE isNodeAvailable s))
       = isNodeAvailable ''idp1''
   \<and> idp2Available (snd (suite_before USE_EXTERNAL_CRYPTO_SERVICE isNodeAvailable s))
       = isNodeAvailable ''idp2''
   \<and> as1Available (snd (suite_before USE_EXTERNAL_CRYPTO_SERVICE isNodeAvailable s))
       = isNodeAvailable ''as1''
   \<and> as2Available (snd (suite_before USE_EXTERNAL_CRYPTO_SERVICE isNodeAvailable s))
       = isNodeAvailable ''as2''
   \<and> proxy1Available (snd (suite_before USE_EXTERNAL_CRYPTO_SERVICE isNodeAvailable s))
       = isNodeAvailable ''proxy1''
   \<and> proxy2Available (snd (suite_before USE_EXTERNAL_CRYPTO_SERVICE isNodeAvailable s))
       = isNodeAvailable ''proxy2''
   \<and> fst (suite_before USE_EXTERNAL_CRYPTO_SERVICE isNodeAvailable s)
       = (if truthy (isNodeAvailable ''rp1'') \<and> truthy (isNodeAvailable ''idp1'') then None
          else Some (Error ''Could not connect to RP and IdP-1 nodes''))"
proof -
  have checks_append:
    "availability_checks (xs @ ys) = availability_checks xs @ availability_checks ys"
    for xs ys
    by (induction xs rule: availability_checks.induct) simp_all
  show ?thesis
    by (simp add: suite_before_def checkForAvailableNodes_def Let_def checks_append)
qed

theorem suite_before_availability_witness:
  "fst (suite_before False (\<lambda>n. Bool (n = ''ndid1'' \<or> n = ''rp1'' \<or> n = ''idp1''))
     \<lparr>ndidAvailable = Undefined, rpAvailable = Undefined, idp1Available = Undefined,
      idp2Available = Undefined, as1Available = Undefined, as2Available = Undefined,
      proxy1Available = Undefined, proxy2Available = Undefined, calls = []\<rparr>) = None
   \<and> fst (suite_before False (\<lambda>n. Bool (n \<noteq> ''idp1''))
     \<lparr>ndidAvailable = Undefined, rpAvailable = Undefined, idp1Available = Undefined,
      idp2Available = Undefined, as1Available = Undefined, as2Available = Undefined,
      proxy1Available = Undefined, proxy2Available = Undefined, calls = []\<rparr>)
     = Some (Error ''Could not connect to RP and IdP-1 nodes'')"
  using suite_before_availability
    [of False "\<lambda>n. Bool (n = ''ndid1'' \<or> n = ''rp1'' \<or> n = ''idp1'')"
        "\<lparr>ndidAvailable = Undefined, rpAvailable = Undefined, idp1Available = Undefined,
          idp2Available = Undefined, as1Available = Undefined, as2Available = Undefined,
          proxy1Available = Undefined, proxy2Available = Undefined, calls = []\<rparr>"]
    suite_before_availability
    [of False "\<lambda>n. Bool (n \<noteq> ''idp1'')"
        "\<lparr>ndidAvailable = Undefined, rpAvailable = Undefined, idp1Available = Undefined,
          idp2Available = Undefined, as1Available = Undefined, as2Available = Undefined,
          proxy1Available = Undefined, proxy2Available = Undefined, calls = []\<rparr>"]
  by simp

section \<open>Properties of the test files' hooks\<close>

text \<open>
  Claim C7, as the code has it. When \<open>ndidAvailable\<close> and \<open>idp1Available\<close> are truthy (the
  \<open>before\<close> hook is not skipped) and \<open>getToken('idp1')\<close> yields a response body, the \<open>before\<close>
  hook of the reduce-token test stores the body's \<open>amount\<close> in \<open>nodeTokenBeforeTest\<close>, and
  the \<open>after\<close> hook calls \<open>setNodeToken\<close> on ndid1 with node id idp1 and exactly that
  amount, in whatever state \<open>w'\<close> the tests left the platform. So on a platform where
  \<open>getToken\<close> reports the amount that \<open>setNodeToken\<close> has set, the amount it reports for
  idp1 once the file is over is the one it reported before the file.
\<close>

theorem reduce_token_restores_recorded_amount:
  assumes "truthy (ndidAvailable suite)" and "truthy (idp1Available suite)"
    and "getToken api w ''idp1'' = Inr responseBody" and "\<not> nullish responseBody"
  shows "reduce_token_before api suite w vars =
           (Passed, vars\<lparr>nodeTokenBeforeTest := get_field responseBody ''amount''\<rparr>)
       \<and> reduce_token_after_request (snd (reduce_token_before api suite w vars)) =
           (''ndid1'', Obj [(''node_id'', Str ''idp1''),
                            (''amount'', get_field responseBody ''amount'')])
       \<and> reduce_token_after api (snd (reduce_token_before api suite w vars)) w' =
           setNodeToken api ''ndid1''
             (Obj [(''node_id'', Str ''idp1''),
                   (''amount'', get_field responseBody ''amount'')]) w'
       \<and> ((\<forall>a u. \<exists>b. getToken api
                (setNodeToken api ''ndid1''
                   (Obj [(''node_id'', Str ''idp1''), (''amount'', a)]) u) ''idp1'' = Inr b
              \<and> get_field b ''amount'' = a)
          \<longrightarrow> (\<exists>b. getToken api
                (reduce_token_after api (snd (reduce_token_before api suite w vars)) w')
                ''idp1'' = Inr b
              \<and> get_field b ''amount'' = get_field responseBody ''amount''))"
proof -
  have before: "reduce_token_before api suite w vars =
      (Passed, vars\<lparr>nodeTokenBeforeTest := get_field responseBody ''amount''\<rparr>)"
    using assms by (simp add: reduce_token_before_def)
  have request: "reduce_token_after_request (snd (reduce_token_before api suite w vars)) =
      (''ndid1'', Obj [(''node_id'', Str ''idp1''),
                       (''amount'', get_field responseBody ''amount'')])"
    by (simp add: before reduce_token_after_request_def)
  have after: "reduce_token_after api (snd (reduce_token_before api suite w vars)) w' =
      setNodeToken api ''ndid1''
        (Obj [(''node_id'', Str ''idp1''),
              (''amount'', get_field responseBody ''amount'')]) w'"
    by (simp add: reduce_token_after_def request)
  show ?thesis
    unfolding after using before request by blast
qed

theorem reduce_token_restores_recorded_amount_witness:
  "reduce_token_after
     \<lparr>getToken = (\<lambda>w n. Inr (Obj [(''amount'', w)])),
      setNodeToken = (\<lambda>n body w. get_field body ''amount'')\<rparr>
     (snd (reduce_token_before
        \<lparr>getToken = (\<lambda>w n. Inr (Obj [(''amount'', w)])),
         setNodeToken = (\<lambda>n body w. get_field body ''amount'')\<rparr>
        \<lparr>ndidAvailable = Bool True, rpAvailable = Bool True, idp1Available = Bool True,
         idp2Available = Bool False, as1Available = Bool False, as2Available = Bool False,
         proxy1Available = Bool False, proxy2Available = Bool False, calls = []\<rparr>
        (Num 100) reduce_token_init))
     (Num 0)
   = Num 100"
  using reduce_token_restores_recorded_amount
    [of "\<lparr>ndidAvailable = Bool True, rpAvailable = Bool True, idp1Available = Bool True,
          idp2Available = Bool False, as1Available = Bool False, as2Available = Bool False,
          proxy1Available = Bool False, proxy2Available = Bool False, calls = []\<rparr>"
        "\<lparr>getToken = (\<lambda>w n. Inr (Obj [(''amount'', w)])),
          setNodeToken = (\<lambda>n body w. get_field body ''amount'')\<rparr>"
        "Num 100" "Obj [(''amount'', Num 100)]" reduce_token_init "Num 0",
     THEN conjunct2, THEN conjunct2, THEN conjunct1]
  by (simp add: own_property_def)

text \<open>
  The claim as written (the \<open>before\<close> hook records idp1's amount, the \<open>after\<close> hook sends
  it back) fails when ndid1 is not available: the \<open>before\<close> hook is skipped before it
  reads the amount (100 here), \<open>nodeTokenBeforeTest\<close> keeps its initial \<open>0\<close>, and the
  request of the \<open>after\<close> hook carries \<open>0\<close>.
\<close>

theorem reduce_token_skipped_before_records_nothing:
  "reduce_token_before
     \<lparr>getToken = (\<lambda>w n. Inr (Obj [(''amount'', w)])),
      setNodeToken = (\<lambda>n body w. get_field body ''amount'')\<rparr>
     \<lparr>ndidAvailable = Bool False, rpAvailable = Bool True, idp1Available = Bool True,
      idp2Available = Bool False, as1Available = Bool False, as2Available = Bool False,
      proxy1Available = Bool False, proxy2Available = Bool False, calls = []\<rparr>
     (Num 100) reduce_token_init
   = (Skipped, \<lparr>nodeTokenBeforeTest = Num 0\<rparr>)
   \<and> reduce_token_after_request \<lparr>nodeTokenBeforeTest = Num 0\<rparr>
   = (''ndid1'', Obj [(''node_id'', Str ''idp1''), (''amount'', Num 0)])"
  by (simp add: reduce_token_before_def reduce_token_init_def reduce_token_after_request_def)

text \<open>
  Claim C10. For each test file, every event of every emitter that its \<open>before\<close> hook
  subscribed to has no listener left once its \<open>after\<close> hook has run, and whatever is
  still subscribed anywhere was subscribed before the file began: nothing the file
  registered remains.
\<close>

theorem after_hook_removes_subscriptions:
  "(snd (before_hook f suite idp1Identities r) e eventName \<noteq> r e eventName \<longrightarrow>
      registry_after_file f suite idp1Identities r e eventName = [])
   \<and> (l \<in> set (registry_after_file f suite idp1Identities r e eventName) \<longrightarrow>
      l \<in> set (r e eventName))"
  by (cases f)
     (auto simp: registry_after_file_def subscribe_def on_def removeAllListeners_def
           split: if_splits)

theorem after_hook_removes_subscriptions_witness:
  "registry_after_file create_identity_2nd_idp
     \<lparr>ndidAvailable = Bool True, rpAvailable = Bool True, idp1Available = Bool True,
      idp2Available = Bool True, as1Available = Bool False, as2Available = Bool False,
      proxy1Available = Bool False, proxy2Available = Bool False, calls = []\<rparr>
     [Obj [(''namespace'', Str ''cid'')]]
     (\<lambda>e eventName. [])
     idp2EventEmitter ''accessor_sign_callback'' = []"
  using after_hook_removes_subscriptions
    [of create_identity_2nd_idp
        "\<lparr>ndidAvailable = Bool True, rpAvailable = Bool True, idp1Available = Bool True,
          idp2Available = Bool True, as1Available = Bool False, as2Available = Bool False,
          proxy1Available = Bool False, proxy2Available = Bool False, calls = []\<rparr>"
        "[Obj [(''namespace'', Str ''cid'')]]" "\<lambda>e eventName. []"
        idp2EventEmitter "''accessor_sign_callback''"]
  by (simp add: subscribe_def on_def)

end
